theory Spec2Isabelle
  imports Main
begin

section \<open>Python values: text, bytes and exceptions\<close>

text \<open>
  A Python \<open>str\<close> is a sequence of Unicode code points and \<open>bytes\<close> a sequence of
  octets. The hub code only concatenates texts, tests them for emptiness and compares
  them, so a text is a list of code points. \<open>lit\<close> turns an ASCII literal of the
  source into such a text, \<open>ascii\<close> into its bytes. An octet is a number; the
  decoder below rejects every value that is not a legal UTF-8 octet, so no arithmetic
  on octets ever wraps.
\<close>

type_synonym str = "nat list"

type_synonym byte = nat

definition lit :: "string \<Rightarrow> str" where
  "lit s = map of_char s"

definition ascii :: "string \<Rightarrow> byte list" where
  "ascii s = map of_char s"

text \<open>
  The exceptions that can leave the hub functions: the error that a boto3 call raises
  when the service refuses or fails (a botocore exception, with the error code, such
  as \<open>AccessDenied\<close> or \<open>ResourceNotFoundException\<close>), the plain
  \<open>Exception(message)\<close> that \<open>get_cross_account_bedrock_client\<close> raises itself, and the
  \<open>UnicodeDecodeError\<close> of \<open>bytes.decode\<close>.
\<close>

datatype exn = BotoError str | PyException str | UnicodeDecodeError

text \<open>
  \<open>bytes.decode("utf-8")\<close> with the default strict error handler: well-formed UTF-8
  only (no overlong forms, no surrogates, nothing above U+10FFFF, no truncated
  sequence); anything else raises.
\<close>

definition is_cont :: "byte \<Rightarrow> bool" where
  "is_cont b \<longleftrightarrow> 0x80 \<le> b \<and> b \<le> 0xBF"

fun utf8_decode :: "byte list \<Rightarrow> str option" where
  "utf8_decode [] = Some []"
| "utf8_decode (b # bs) =
    (if b < 0x80 then map_option ((#) b) (utf8_decode bs)
     else if 0xC2 \<le> b \<and> b \<le> 0xDF then
       (case bs of
          c1 # r \<Rightarrow>
            if is_cont c1
            then map_option ((#) ((b - 0xC0) * 0x40 + (c1 - 0x80))) (utf8_decode r)
            else None
        | _ \<Rightarrow> None)
     else if 0xE0 \<le> b \<and> b \<le> 0xEF then
       (case bs of
          c1 # c2 # r \<Rightarrow>
            if (if b = 0xE0 then 0xA0 else 0x80) \<le> c1
               \<and> c1 \<le> (if b = 0xED then 0x9F else 0xBF) \<and> is_cont c2
            then map_option
                   ((#) ((b - 0xE0) * 0x1000 + (c1 - 0x80) * 0x40 + (c2 - 0x80)))
                   (utf8_decode r)
            else None
        | _ \<Rightarrow> None)
     else if 0xF0 \<le> b \<and> b \<le> 0xF4 then
       (case bs of
          c1 # c2 # c3 # r \<Rightarrow>
            if (if b = 0xF0 then 0x90 else 0x80) \<le> c1
               \<and> c1 \<le> (if b = 0xF4 then 0x8F else 0xBF) \<and> is_cont c2 \<and> is_cont c3
            then map_option
                   ((#) ((b - 0xF0) * 0x40000 + (c1 - 0x80) * 0x1000
                         + (c2 - 0x80) * 0x40 + (c3 - 0x80)))
                   (utf8_decode r)
            else None
        | _ \<Rightarrow> None)
     else None)"

definition decode :: "byte list \<Rightarrow> exn + str" where
  "decode bs = (case utf8_decode bs of None \<Rightarrow> Inl UnicodeDecodeError | Some t \<Rightarrow> Inr t)"

text \<open>An f-string field: \<open>None\<close> is rendered as the text \<open>None\<close>.\<close>

definition fmt :: "str option \<Rightarrow> str" where
  "fmt v = (case v of None \<Rightarrow> lit ''None'' | Some s \<Rightarrow> s)"

section \<open>The outside world of the hub orchestrator\<close>

text \<open>
  The agent registry entry, read with \<open>agent.get('agent_id')\<close>, \<open>agent.get('alias_id')\<close>
  and \<open>agent.get('account_id')\<close>: each key may be missing (\<open>None\<close>).
\<close>

record agent =
  agent_id :: "str option"
  alias_id :: "str option"
  account_id :: "str option"

text \<open>The keyword arguments of \<open>sts.assume_role\<close> and the credentials it answers with.\<close>

record assume_role_request =
  RoleArn :: str
  RoleSessionName :: str
  ExternalId :: str

record credentials =
  AccessKeyId :: str
  SecretAccessKey :: str
  SessionToken :: str

text \<open>The keyword arguments of \<open>boto3.Session\<close>.\<close>

record session =
  aws_access_key_id :: str
  aws_secret_access_key :: str
  aws_session_token :: str
  region_name :: str

text \<open>
  A \<open>bedrock-agent-runtime\<close> client is either made by \<open>boto3.client\<close> from the
  process-wide default credentials (with its region), or by \<open>session.client\<close> from one
  session.
\<close>

datatype client = DefaultClient str | SessionClient session

record invoke_agent_request =
  agentId :: "str option"
  agentAliasId :: str
  sessionId :: str
  inputText :: str

text \<open>
  The answer of \<open>invoke_agent\<close>: a dictionary whose \<open>completion\<close> key, when present,
  holds the finite stream of events; an event may have a \<open>chunk\<close> key, and a chunk may
  have a \<open>bytes\<close> key.
\<close>

record chunk_dict =
  bytes :: "byte list option"

record event =
  chunk :: "chunk_dict option"

record response =
  completion :: "event list option"

text \<open>
  Every call that leaves the process is recorded, oldest first: \<open>assume_role\<close> on the
  STS client of the default credentials (with that client's region),
  \<open>get_caller_identity\<close> on the STS client of a session, \<open>invoke_agent\<close> on a client.
\<close>

datatype call =
  AssumeRole str assume_role_request
| GetCallerIdentity session
| InvokeAgent client invoke_agent_request

text \<open>
  The environment: the \<open>AWS_REGION\<close> variable and the answers of the three services.
  An answer may depend on everything that was called before (temporary credentials
  differ from one assumption to the next), so each service reads the calls made so far.
  A service answers with its result or refuses with an error code, which boto3 raises.
  \<open>get_caller_identity\<close> answers with the \<open>Account\<close> of the identity.
\<close>

record env =
  AWS_REGION :: "str option"
  assume_role :: "call list \<Rightarrow> assume_role_request \<Rightarrow> str + credentials"
  get_caller_identity :: "call list \<Rightarrow> session \<Rightarrow> str + str"
  invoke_agent :: "call list \<Rightarrow> client \<Rightarrow> invoke_agent_request \<Rightarrow> str + response"

section \<open>Configuration constants\<close>

definition REGION :: "env \<Rightarrow> str" where
  "REGION E = (case AWS_REGION E of None \<Rightarrow> lit ''us-east-1'' | Some r \<Rightarrow> r)"

definition LOCAL_ACCOUNT_ID :: str where
  "LOCAL_ACCOUNT_ID = lit ''843074507558''"

definition CROSS_ACCOUNT_ROLE_ARN :: str where
  "CROSS_ACCOUNT_ROLE_ARN = lit ''arn:aws:iam::152864141302:role/cmcCrossAccountBedrockInvokeRole''"

definition CROSS_ACCOUNT_EXTERNAL_ID :: str where
  "CROSS_ACCOUNT_EXTERNAL_ID = lit ''bedrock-cross-account-2024''"

text \<open>The module-level local client.\<close>

definition bedrock_client :: "env \<Rightarrow> client" where
  "bedrock_client E = DefaultClient (REGION E)"

section \<open>Cross-account client function\<close>

text \<open>
  \<open>get_cross_account_bedrock_client(account_id)\<close>: one \<open>assume_role\<close>, an isolated
  session from the credentials it answered with, one \<open>get_caller_identity\<close> on that
  session, and the check of the account. An exception of a service call propagates.
  The \<open>print\<close> calls write to standard output only and are left out.
  \<open>assume_role_kwargs\<close> are the keyword arguments of the \<open>assume_role\<close> call and
  \<open>isolated_session\<close> those of \<open>boto3.Session\<close>. The parameter \<open>account_id\<close> of the
  source is \<open>acct\<close> here, since \<open>account_id\<close> names the field of the registry entry.
\<close>

definition assume_role_kwargs :: "str \<Rightarrow> assume_role_request" where
  "assume_role_kwargs acct =
     \<lparr>RoleArn = CROSS_ACCOUNT_ROLE_ARN,
      RoleSessionName = lit ''HubSession-'' @ acct,
      ExternalId = CROSS_ACCOUNT_EXTERNAL_ID\<rparr>"

definition isolated_session :: "env \<Rightarrow> credentials \<Rightarrow> session" where
  "isolated_session E creds =
     \<lparr>aws_access_key_id = AccessKeyId creds,
      aws_secret_access_key = SecretAccessKey creds,
      aws_session_token = SessionToken creds,
      region_name = REGION E\<rparr>"

definition get_cross_account_bedrock_client ::
  "env \<Rightarrow> str \<Rightarrow> call list \<Rightarrow> (exn + client) \<times> call list" where
  "get_cross_account_bedrock_client E acct tr =
     (let tr1 = tr @ [AssumeRole (REGION E) (assume_role_kwargs acct)]
      in case assume_role E tr (assume_role_kwargs acct) of
           Inl code \<Rightarrow> (Inl (BotoError code), tr1)
         | Inr creds \<Rightarrow>
             (let sess = isolated_session E creds;
                  tr2 = tr1 @ [GetCallerIdentity sess]
              in case get_caller_identity E tr1 sess of
                   Inl code \<Rightarrow> (Inl (BotoError code), tr2)
                 | Inr ident \<Rightarrow>
                     if ident \<noteq> acct
                     then (Inl (PyException
                                  (lit ''Expected account '' @ acct @ lit '', got '' @ ident)), tr2)
                     else (Inr (SessionClient sess), tr2)))"

section \<open>Agent invocation logic\<close>

text \<open>
  The loop over \<open>response.get("completion", [])\<close>: an event with a chunk that has bytes
  is decoded and appended to \<open>result\<close>, any other event is passed over, and a decoding
  error leaves the loop (and the function) at once.
\<close>

fun process_streaming_response :: "str \<Rightarrow> event list \<Rightarrow> exn + str" where
  "process_streaming_response result [] = Inr result"
| "process_streaming_response result (ev # evs) =
     (case chunk ev of
        None \<Rightarrow> process_streaming_response result evs
      | Some c \<Rightarrow>
          (case bytes c of
             None \<Rightarrow> process_streaming_response result evs
           | Some bs \<Rightarrow>
               (case decode bs of
                  Inl e \<Rightarrow> Inl e
                | Inr t \<Rightarrow> process_streaming_response (result @ t) evs)))"

text \<open>
  The choice of the client: the cross-account one when \<open>account_id\<close> is truthy (present
  and not empty) and differs from \<open>LOCAL_ACCOUNT_ID\<close>, the module-level one otherwise.
\<close>

definition choose_client :: "env \<Rightarrow> agent \<Rightarrow> call list \<Rightarrow> (exn + client) \<times> call list" where
  "choose_client E ag tr =
     (case account_id ag of
        Some acct \<Rightarrow>
          if acct \<noteq> [] \<and> acct \<noteq> LOCAL_ACCOUNT_ID
          then get_cross_account_bedrock_client E acct tr
          else (Inr (bedrock_client E), tr)
      | None \<Rightarrow> (Inr (bedrock_client E), tr))"

text \<open>
  \<open>invoke_bedrock_agent(agent, user_request, session_id)\<close>: the guard on \<open>alias_id\<close>
  (missing or empty), the choice of the client, the invocation on the chosen client,
  the loop, and the final \<open>result if result else "No response from agent."\<close>.
\<close>

definition completion_events :: "response \<Rightarrow> event list" where
  "completion_events resp = (case completion resp of None \<Rightarrow> [] | Some evs \<Rightarrow> evs)"

definition invoke_agent_kwargs :: "agent \<Rightarrow> str \<Rightarrow> str \<Rightarrow> str \<Rightarrow> invoke_agent_request" where
  "invoke_agent_kwargs ag alias session_id user_request =
     \<lparr>agentId = agent_id ag, agentAliasId = alias,
      sessionId = session_id, inputText = user_request\<rparr>"

definition missing_alias_text :: "agent \<Rightarrow> str" where
  "missing_alias_text ag = lit ''Error: Missing alias_id for agent '' @ fmt (agent_id ag)"

definition invoke_bedrock_agent ::
  "env \<Rightarrow> agent \<Rightarrow> str \<Rightarrow> str \<Rightarrow> call list \<Rightarrow> (exn + str) \<times> call list" where
  "invoke_bedrock_agent E ag user_request session_id tr =
     (case alias_id ag of
        None \<Rightarrow> (Inr (missing_alias_text ag), tr)
      | Some alias \<Rightarrow>
          if alias = []
          then (Inr (missing_alias_text ag), tr)
          else
            (case choose_client E ag tr of
               (Inl e, tr1) \<Rightarrow> (Inl e, tr1)
             | (Inr bedrock, tr1) \<Rightarrow>
                 (let req = invoke_agent_kwargs ag alias session_id user_request;
                      tr2 = tr1 @ [InvokeAgent bedrock req]
                  in case invoke_agent E tr1 bedrock req of
                       Inl code \<Rightarrow> (Inl (BotoError code), tr2)
                     | Inr resp \<Rightarrow>
                         (case process_streaming_response [] (completion_events resp) of
                            Inl e \<Rightarrow> (Inl e, tr2)
                          | Inr result \<Rightarrow>
                              (Inr (if result \<noteq> [] then result
                                    else lit ''No response from agent.''), tr2)))))"

section \<open>Frontend: values of the browser code\<close>

text \<open>
  The frontend is TypeScript. Its strings are only concatenated, compared and tested
  for emptiness, so a string is a \<open>string\<close>; the two pictographs of the source are
  written as their UTF-8 octets. A template literal renders a missing value as
  \<open>undefined\<close>. Values of the request and response bodies that are not strings are
  left out.
\<close>

definition tmpl :: "string option \<Rightarrow> string" where
  "tmpl v = (case v of None \<Rightarrow> ''undefined'' | Some s \<Rightarrow> s)"

function show_nat :: "nat \<Rightarrow> string" where
  "show_nat n =
     (if n < 10 then [char_of (48 + n)]
      else show_nat (n div 10) @ [char_of (48 + n mod 10)])"
  by pat_completeness auto
termination
  by (relation "measure (\<lambda>n. n)") auto

declare show_nat.simps [simp del]

text \<open>
  What a \<open>throw\<close> or a rejected promise carries: an object that is an \<open>Error\<close>, with
  its \<open>name\<close> and \<open>message\<close>, or any other value.
\<close>

datatype thrown = ErrorObject (err_name: string) (err_message: string) | OtherValue

definition new_Error :: "string \<Rightarrow> thrown" where
  "new_Error msg = ErrorObject ''Error'' msg"

section \<open>Frontend: the upload-url route\<close>

text \<open>
  \<open>route.ts\<close>: the environment variables the module reads, the S3 client it builds from
  them, the command and the options it hands to \<open>getSignedUrl\<close>, and the JSON it answers
  with. \<open>getSignedUrl\<close> is the presigner of the AWS SDK, a parameter here; it may
  reject. \<open>request.json()\<close> may reject as well. \<open>ROUTE_AWS_REGION\<close> is the
  variable \<open>AWS_REGION\<close> of this process, named apart from the one the hub reads.
\<close>

record route_env =
  ROUTE_AWS_REGION :: "string option"
  AWS_ACCESS_KEY_ID :: "string option"
  AWS_SECRET_ACCESS_KEY :: "string option"
  S3_BUCKET_NAME :: "string option"

record s3_client_config =
  region :: "string option"
  accessKeyId :: "string option"
  secretAccessKey :: "string option"

record put_object_command =
  Bucket :: "string option"
  Key :: string
  ContentType :: "string option"

record sign_options =
  expiresIn :: nat

record upload_body =
  filename :: "string option"
  contentType :: "string option"

record upload_reply =
  uploadUrl :: string
  s3Path :: string

type_synonym signer =
  "s3_client_config \<Rightarrow> put_object_command \<Rightarrow> sign_options \<Rightarrow> thrown + string"

definition s3Client :: "route_env \<Rightarrow> s3_client_config" where
  "s3Client penv =
     \<lparr>region = ROUTE_AWS_REGION penv,
      accessKeyId = AWS_ACCESS_KEY_ID penv,
      secretAccessKey = AWS_SECRET_ACCESS_KEY penv\<rparr>"

definition POST :: "route_env \<Rightarrow> signer \<Rightarrow> thrown + upload_body \<Rightarrow> thrown + upload_reply" where
  "POST penv getSignedUrl request_json =
     (case request_json of
        Inl e \<Rightarrow> Inl e
      | Inr body \<Rightarrow>
          (let key = ''sourceDocs/'' @ tmpl (filename body);
               command = \<lparr>Bucket = S3_BUCKET_NAME penv, Key = key,
                          ContentType = contentType body\<rparr>
           in case getSignedUrl (s3Client penv) command \<lparr>expiresIn = 1500\<rparr> of
                Inl e \<Rightarrow> Inl e
              | Inr url \<Rightarrow>
                  Inr \<lparr>uploadUrl = url,
                       s3Path = ''s3://'' @ tmpl (S3_BUCKET_NAME penv) @ ''/'' @ key\<rparr>))"

section \<open>Frontend: the upload handler of the chat page\<close>

record chat_message =
  role :: string
  content :: string

record page_state =
  messages :: "chat_message list"
  uploading :: bool
  loading :: bool

record upload_file =
  file_name :: string
  file_type :: string

record url_json =
  got_uploadUrl :: "string option"
  got_s3Path :: "string option"

record url_response =
  url_ok :: bool
  url_json :: "thrown + url_json"

record hub_data =
  data_response :: "string option"
  data_error :: "string option"

record hub_response =
  hub_ok :: bool
  hub_status :: nat
  hub_text :: "thrown + string"
  hub_json :: "thrown + hub_data"

text \<open>
  What the network does with the three requests of \<open>handleFileUpload\<close>. A request
  settles with a response or a rejection, or never settles (\<open>None\<close>). The request to
  the hub settles, if at all, some milliseconds after it was sent. \<open>selected_file\<close> is
  \<open>e.target.files?.[0]\<close>.
\<close>

record upload_env =
  selected_file :: "upload_file option"
  fetch_upload_url :: "string \<Rightarrow> string \<Rightarrow> (thrown + url_response) option"
  fetch_s3_put :: "string option \<Rightarrow> upload_file \<Rightarrow> (thrown + bool) option"
  fetch_hub :: "string \<Rightarrow> string \<Rightarrow> (nat \<times> (thrown + hub_response)) option"

definition TIMEOUT_MS :: nat where
  "TIMEOUT_MS = 120000"

definition STILL_PROCESSING :: string where
  "STILL_PROCESSING =
     [CHR 0xE2, CHR 0x8F, CHR 0xB3] @
     '' Document uploaded successfully! Processing is taking longer than expected. '' @
     ''The document is being processed in the background - please try asking about it '' @
     ''in a moment, or check CloudWatch logs for the result.''"

definition TIMED_OUT :: string where
  "TIMED_OUT = ''Request timed out - document processing is taking too long''"

definition add_message :: "page_state \<Rightarrow> string \<Rightarrow> string \<Rightarrow> page_state" where
  "add_message st r c = st\<lparr>messages := messages st @ [\<lparr>role = r, content = c\<rparr>]\<rparr>"

definition truthy :: "string option \<Rightarrow> bool" where
  "truthy v = (case v of None \<Rightarrow> False | Some s \<Rightarrow> s \<noteq> [])"

text \<open>
  The inner \<open>catch (fetchError)\<close>: an \<open>Error\<close> named \<open>AbortError\<close> is replaced by a new
  \<open>Error\<close> with the timeout message, anything else is thrown again.
\<close>

definition inner_catch :: "thrown \<Rightarrow> thrown" where
  "inner_catch e =
     (case e of
        ErrorObject n m \<Rightarrow> if n = ''AbortError'' then new_Error TIMED_OUT else e
      | OtherValue \<Rightarrow> e)"

text \<open>
  The call of the hub orchestrator with its \<open>AbortController\<close> and two-minute timer.
  When the request has not settled before the timer runs out (at equality the timer is
  taken to come first), \<open>controller.abort()\<close> is called and \<open>fetch\<close> rejects with an
  \<open>AbortError\<close>, whose message nothing reads. The second component tells whether
  \<open>controller.abort()\<close> was called. Every exception of the inner \<open>try\<close> passes through
  the inner \<open>catch\<close>. The \<open>return\<close> of the 504 branch ends the handler like a normal
  completion: only the \<open>finally\<close> block follows either.
\<close>

definition call_hub ::
  "upload_env \<Rightarrow> string \<Rightarrow> string option \<Rightarrow> page_state \<Rightarrow> (thrown + page_state) \<times> bool" where
  "call_hub uenv session_id path st =
     (let prompt = ''Extract data from this S3 URI ('' @ tmpl path @ '')'';
          aborted = (Inl (inner_catch (ErrorObject ''AbortError'' ''The operation was aborted.'')),
                     True)
      in case fetch_hub uenv prompt session_id of
           None \<Rightarrow> aborted
         | Some (t, r) \<Rightarrow>
             if TIMEOUT_MS \<le> t then aborted
             else
               (case r of
                  Inl e \<Rightarrow> (Inl (inner_catch e), False)
                | Inr hubRes \<Rightarrow>
                    if \<not> hub_ok hubRes then
                      (if hub_status hubRes = 504
                       then (Inr (add_message st ''assistant'' STILL_PROCESSING), False)
                       else
                         (case hub_text hubRes of
                            Inl e \<Rightarrow> (Inl (inner_catch e), False)
                          | Inr errorText \<Rightarrow>
                              (Inl (inner_catch
                                      (new_Error (''API error: '' @ show_nat (hub_status hubRes)
                                                  @ '' - '' @ errorText))), False)))
                    else
                      (case hub_json hubRes of
                         Inl e \<Rightarrow> (Inl (inner_catch e), False)
                       | Inr data \<Rightarrow>
                           (Inr (add_message st ''assistant''
                                   (if truthy (data_response data) then the (data_response data)
                                    else if truthy (data_error data) then the (data_error data)
                                    else ''Processing complete but no response data'')),
                            False))))"

text \<open>
  The body of the outer \<open>try\<close>: the presigned URL, the upload, and the call of the hub.
  \<open>None\<close> when one of the first two requests never settles: nothing bounds them.
\<close>

definition upload_steps ::
  "upload_env \<Rightarrow> string \<Rightarrow> upload_file \<Rightarrow> page_state \<Rightarrow> ((thrown + page_state) \<times> bool) option" where
  "upload_steps uenv session_id f st =
     (case fetch_upload_url uenv (file_name f) (file_type f) of
        None \<Rightarrow> None
      | Some (Inl e) \<Rightarrow> Some (Inl e, False)
      | Some (Inr res) \<Rightarrow>
          if \<not> url_ok res then Some (Inl (new_Error ''Failed to get upload URL''), False)
          else
            (case url_json res of
               Inl e \<Rightarrow> Some (Inl e, False)
             | Inr j \<Rightarrow>
                 (case fetch_s3_put uenv (got_uploadUrl j) f of
                    None \<Rightarrow> None
                  | Some (Inl e) \<Rightarrow> Some (Inl e, False)
                  | Some (Inr uploadRes_ok) \<Rightarrow>
                      if \<not> uploadRes_ok
                      then Some (Inl (new_Error ''Failed to upload file to S3''), False)
                      else Some (call_hub uenv session_id (got_s3Path j)
                                   (st\<lparr>loading := True\<rparr>)))))"

text \<open>
  \<open>handleFileUpload\<close>: nothing happens without a file; otherwise the message with the
  file name, the steps above, the outer \<open>catch\<close> that shows the error as a message of
  role \<open>error\<close>, and the \<open>finally\<close> block. The result is the page state when the handler
  is done and whether \<open>controller.abort()\<close> was called.
\<close>

definition handleFileUpload ::
  "upload_env \<Rightarrow> string \<Rightarrow> page_state \<Rightarrow> (page_state \<times> bool) option" where
  "handleFileUpload uenv session_id st =
     (case selected_file uenv of
        None \<Rightarrow> Some (st, False)
      | Some f \<Rightarrow>
          (let st1 = add_message (st\<lparr>uploading := True\<rparr>) ''user''
                       ([CHR 0xF0, CHR 0x9F, CHR 0x93, CHR 0x8E] @ '' '' @ file_name f)
           in case upload_steps uenv session_id f st1 of
                None \<Rightarrow> None
              | Some (r, ab) \<Rightarrow>
                  (let st2 = (case r of
                                Inr st' \<Rightarrow> st'
                              | Inl err \<Rightarrow>
                                  add_message st1 ''error''
                                    (case err of
                                       ErrorObject n m \<Rightarrow> m
                                     | OtherValue \<Rightarrow> ''Upload failed''))
                   in Some (st2\<lparr>uploading := False, loading := False\<rparr>, ab))))"

section \<open>Observations on the recorded calls and example inputs\<close>

text \<open>
  The byte fragments of a stream, in arrival order: those of the events that have a
  chunk with bytes.
\<close>

definition chunk_bytes :: "event list \<Rightarrow> byte list list" where
  "chunk_bytes evs =
     List.map_filter (\<lambda>ev. case chunk ev of None \<Rightarrow> None | Some c \<Rightarrow> bytes c) evs"

fun is_AssumeRole :: "call \<Rightarrow> bool" where
  "is_AssumeRole (AssumeRole r q) = True"
| "is_AssumeRole (GetCallerIdentity s) = False"
| "is_AssumeRole (InvokeAgent c q) = False"

fun is_InvokeAgent :: "call \<Rightarrow> bool" where
  "is_InvokeAgent (AssumeRole r q) = False"
| "is_InvokeAgent (GetCallerIdentity s) = False"
| "is_InvokeAgent (InvokeAgent c q) = True"

text \<open>
  An environment for examples: every assumption succeeds with credentials that carry
  the number of calls made before it, the identity check answers \<open>ident\<close>, and every
  invocation answers with the stream \<open>evs\<close>.
\<close>

definition example_env :: "str \<Rightarrow> event list \<Rightarrow> env" where
  "example_env ident evs =
     \<lparr>AWS_REGION = None,
      assume_role = (\<lambda>tr q. Inr \<lparr>AccessKeyId = lit ''ASIA'' @ [length tr],
                                 SecretAccessKey = lit ''secret'',
                                 SessionToken = lit ''token''\<rparr>),
      get_caller_identity = (\<lambda>tr s. Inr ident),
      invoke_agent = (\<lambda>tr c q. Inr \<lparr>completion = Some evs\<rparr>)\<rparr>"

definition chunk_event :: "byte list \<Rightarrow> event" where
  "chunk_event bs = \<lparr>chunk = Some \<lparr>bytes = Some bs\<rparr>\<rparr>"

text \<open>The registry entry that the repository's notes give as the correct format.\<close>

definition vessel_agent :: agent where
  "vessel_agent =
     \<lparr>agent_id = Some (lit ''PEGHWIVI5Y''),
      alias_id = Some (lit ''IO1GTTHP0M''),
      account_id = Some (lit ''152864141302'')\<rparr>"

text \<open>
  A network for examples of the upload handler: a file is selected, the presigned URL
  and the upload succeed, and the hub request does what \<open>hub\<close> says.
\<close>

definition example_upload_env :: "(nat \<times> (thrown + hub_response)) option \<Rightarrow> upload_env" where
  "example_upload_env hub =
     \<lparr>selected_file = Some \<lparr>file_name = ''a.pdf'', file_type = ''application/pdf''\<rparr>,
      fetch_upload_url =
        (\<lambda>n t. Some (Inr \<lparr>url_ok = True,
                           url_json = Inr \<lparr>got_uploadUrl = Some ''https://upload'',
                                           got_s3Path = Some (''s3://docs/sourceDocs/'' @ n)\<rparr>\<rparr>)),
      fetch_s3_put = (\<lambda>u f. Some (Inr True)),
      fetch_hub = (\<lambda>p s. hub)\<rparr>"

definition empty_page :: page_state where
  "empty_page = \<lparr>messages = [], uploading = False, loading = False\<rparr>"

definition local_agent :: agent where
  "local_agent = vessel_agent\<lparr>account_id := None\<rparr>"

definition hello_env :: env where
  "hello_env = example_env (lit ''152864141302'')
                 [chunk_event (ascii ''Hel''), chunk_event (ascii ''lo, ''),
                  chunk_event (ascii ''world'')]"

definition silent_env :: env where
  "silent_env = example_env (lit ''152864141302'') []"

definition empty_chunk_env :: env where
  "empty_chunk_env = example_env (lit ''152864141302'') [chunk_event []]"

definition garbled_env :: env where
  "garbled_env = example_env (lit ''152864141302'')
                   [chunk_event (ascii ''Hel''), chunk_event [0xFF], chunk_event (ascii ''lo'')]"

definition no_alias_agent :: agent where
  "no_alias_agent = vessel_agent\<lparr>alias_id := Some []\<rparr>"

definition echo_env :: env where
  "echo_env = example_env (lit ''152864141302'')
                [chunk_event (ascii ''Error: Missing alias_id for agent PEGHWIVI5Y'')]"

definition other_account :: str where
  "other_account = lit ''111111111111''"

definition example_signer :: signer where
  "example_signer cl cmd opts =
     Inr (''https://'' @ tmpl (Bucket cmd) @ ''.s3.amazonaws.com/'' @ Key cmd
          @ ''?X-Amz-Expires='' @ show_nat (expiresIn opts))"

definition example_route_env :: route_env where
  "example_route_env =
     \<lparr>ROUTE_AWS_REGION = Some ''us-east-1'', AWS_ACCESS_KEY_ID = Some ''AKIA'',
      AWS_SECRET_ACCESS_KEY = Some ''secret'', S3_BUCKET_NAME = Some ''docs''\<rparr>"

definition gateway_timeout :: hub_response where
  "gateway_timeout =
     \<lparr>hub_ok = False, hub_status = 504,
      hub_text = Inr ''Endpoint request timed out'', hub_json = Inl OtherValue\<rparr>"

definition denying_env :: env where
  "denying_env = (example_env (lit ''152864141302'') [])
                   \<lparr>assume_role := (\<lambda>tr q. Inl (lit ''AccessDenied''))\<rparr>"

definition empty_account_agent :: agent where
  "empty_account_agent = vessel_agent\<lparr>account_id := Some []\<rparr>"

section \<open>Facts about the response loop and the dispatch\<close>

lemma decode_error: "decode bs = Inl e \<Longrightarrow> e = UnicodeDecodeError"
  by (auto simp: decode_def split: option.splits)

lemma chunk_bytes_Nil: "chunk_bytes [] = []"
  by (simp add: chunk_bytes_def)

lemma chunk_bytes_Cons:
  "chunk_bytes (ev # evs) =
     (case chunk ev of
        None \<Rightarrow> chunk_bytes evs
      | Some c \<Rightarrow> (case bytes c of None \<Rightarrow> chunk_bytes evs | Some bs \<Rightarrow> bs # chunk_bytes evs))"
  by (simp add: chunk_bytes_def split: option.splits)

lemma stream_concat:
  "map decode (chunk_bytes evs) = map Inr ts \<Longrightarrow>
   process_streaming_response r evs = Inr (r @ concat ts)"
proof (induction evs arbitrary: r ts)
  case Nil
  then show ?case by (simp add: chunk_bytes_Nil)
next
  case (Cons ev evs)
  show ?case
  proof (cases "chunk ev")
    case None
    with Cons show ?thesis by (simp add: chunk_bytes_Cons)
  next
    case (Some c)
    show ?thesis
    proof (cases "bytes c")
      case None
      with Some Cons show ?thesis by (simp add: chunk_bytes_Cons)
    next
      case (Some bs)
      with \<open>chunk ev = Some c\<close> Cons.prems
      obtain t ts' where ts: "ts = t # ts'" and t: "decode bs = Inr t"
        and rest: "map decode (chunk_bytes evs) = map Inr ts'"
        by (cases ts) (auto simp: chunk_bytes_Cons)
      from Cons.IH [OF rest] Some \<open>chunk ev = Some c\<close> ts t show ?thesis by simp
    qed
  qed
qed

lemma stream_failure:
  "bs \<in> set (chunk_bytes evs) \<Longrightarrow> utf8_decode bs = None \<Longrightarrow>
   process_streaming_response r evs = Inl UnicodeDecodeError"
proof (induction evs arbitrary: r)
  case Nil
  then show ?case by (simp add: chunk_bytes_Nil)
next
  case (Cons ev evs)
  then show ?case
    by (auto simp: chunk_bytes_Cons decode_def split: option.splits sum.splits)
qed

lemma dispatch_invoked:
  assumes "alias_id ag = Some alias" and "alias \<noteq> []"
    and "choose_client E ag tr = (Inr c, tr1)"
    and "invoke_agent E tr1 c (invoke_agent_kwargs ag alias sid u) = Inr resp"
  shows "invoke_bedrock_agent E ag u sid tr =
           (case process_streaming_response [] (completion_events resp) of
              Inl e \<Rightarrow> Inl e
            | Inr result \<Rightarrow> Inr (if result \<noteq> [] then result else lit ''No response from agent.''),
            tr1 @ [InvokeAgent c (invoke_agent_kwargs ag alias sid u)])"
  using assms by (simp add: invoke_bedrock_agent_def Let_def split: sum.splits)

lemma choose_client_local:
  "account_id ag = None \<or> account_id ag = Some [] \<or> account_id ag = Some LOCAL_ACCOUNT_ID \<Longrightarrow>
   choose_client E ag tr = (Inr (bedrock_client E), tr)"
  by (auto simp: choose_client_def)

lemma hello_fragments:
  "map decode (chunk_bytes [chunk_event (ascii ''Hel''), chunk_event (ascii ''lo, ''),
                  chunk_event (ascii ''world'')]) = map Inr [lit ''Hel'', lit ''lo, '', lit ''world'']"
  by (simp add: chunk_bytes_Cons chunk_bytes_Nil chunk_event_def decode_def ascii_def lit_def)

lemma local_agent_alias: "alias_id local_agent = Some (lit ''IO1GTTHP0M'')"
  by (simp add: local_agent_def vessel_agent_def)

lemma alias_not_empty: "lit ''IO1GTTHP0M'' \<noteq> []"
  by (simp add: lit_def)

lemma hello_assume:
  "assume_role hello_env tr q =
     Inr \<lparr>AccessKeyId = lit ''ASIA'' @ [length tr], SecretAccessKey = lit ''secret'',
          SessionToken = lit ''token''\<rparr>"
  by (simp add: hello_env_def example_env_def)

lemma hello_identity: "get_caller_identity hello_env tr s = Inr (lit ''152864141302'')"
  by (simp add: hello_env_def example_env_def)

lemma hello_region: "REGION hello_env = lit ''us-east-1''"
  by (simp add: REGION_def hello_env_def example_env_def)

lemma broker_trace:
  "snd (get_cross_account_bedrock_client E acct tr) =
     tr @ AssumeRole (REGION E) (assume_role_kwargs acct) #
       (case assume_role E tr (assume_role_kwargs acct) of
          Inl code \<Rightarrow> []
        | Inr creds \<Rightarrow> [GetCallerIdentity (isolated_session E creds)])"
  by (simp add: get_cross_account_bedrock_client_def Let_def split: sum.splits)

lemma broker_client:
  "fst (get_cross_account_bedrock_client E acct tr) = Inr c \<Longrightarrow>
   \<exists>creds. assume_role E tr (assume_role_kwargs acct) = Inr creds
           \<and> c = SessionClient (isolated_session E creds)"
  by (auto simp: get_cross_account_bedrock_client_def Let_def split: sum.splits if_splits)

lemma choose_client_cross:
  "account_id ag = Some acct \<Longrightarrow> acct \<noteq> [] \<Longrightarrow> acct \<noteq> LOCAL_ACCOUNT_ID \<Longrightarrow>
   choose_client E ag tr = get_cross_account_bedrock_client E acct tr"
  by (simp add: choose_client_def)

lemma dispatch_trace:
  assumes "alias_id ag = Some alias" and "alias \<noteq> []"
    and "choose_client E ag tr = (Inr c, tr1)"
  shows "snd (invoke_bedrock_agent E ag u sid tr) =
           tr1 @ [InvokeAgent c (invoke_agent_kwargs ag alias sid u)]"
  using assms by (simp add: invoke_bedrock_agent_def Let_def split: sum.splits)

lemma dispatch_broker_failed:
  assumes "alias_id ag = Some alias" and "alias \<noteq> []"
    and "choose_client E ag tr = (Inl e, tr1)"
  shows "invoke_bedrock_agent E ag u sid tr = (Inl e, tr1)"
  using assms by (simp add: invoke_bedrock_agent_def)

section \<open>Routing of a dispatch\<close>

text \<open>
  Claim C1, as amended. The claim speaks of every dispatch, but a dispatch whose
  \<open>alias_id\<close> is missing or empty returns before any client is chosen, and an empty
  \<open>account_id\<close> counts as absent. For a record with a non-empty \<open>alias_id\<close>:
  when \<open>account_id\<close> is present, not empty and not the local account, the calls of the
  dispatch are those of one run of \<open>get_cross_account_bedrock_client\<close> for that account,
  followed, when that run returned a client, by one \<open>invoke_agent\<close> on exactly that
  client, which is not the module-level client; when the run raised, the dispatch
  raises the same exception and invokes nothing; either way exactly one role assumption
  is recorded. When \<open>account_id\<close> is missing, empty or the local account, the only call
  of the dispatch is one \<open>invoke_agent\<close> on the module-level client.
\<close>

theorem dispatch_routing:
  assumes "alias_id ag = Some alias" and "alias \<noteq> []"
  shows "(\<forall>acct. account_id ag = Some acct \<and> acct \<noteq> [] \<and> acct \<noteq> LOCAL_ACCOUNT_ID \<longrightarrow>
            (case get_cross_account_bedrock_client E acct tr of
               (Inr c, trb) \<Rightarrow>
                 snd (invoke_bedrock_agent E ag u sid tr)
                   = trb @ [InvokeAgent c (invoke_agent_kwargs ag alias sid u)]
                 \<and> c \<noteq> bedrock_client E
             | (Inl e, trb) \<Rightarrow> invoke_bedrock_agent E ag u sid tr = (Inl e, trb))
            \<and> filter is_AssumeRole (snd (invoke_bedrock_agent E ag u sid tr))
                = filter is_AssumeRole tr @ [AssumeRole (REGION E) (assume_role_kwargs acct)])
         \<and> (account_id ag = None \<or> account_id ag = Some [] \<or> account_id ag = Some LOCAL_ACCOUNT_ID \<longrightarrow>
              snd (invoke_bedrock_agent E ag u sid tr)
                = tr @ [InvokeAgent (bedrock_client E) (invoke_agent_kwargs ag alias sid u)])"
proof (intro conjI allI impI)
  fix acct
  assume h: "account_id ag = Some acct \<and> acct \<noteq> [] \<and> acct \<noteq> LOCAL_ACCOUNT_ID"
  then have cc: "choose_client E ag tr = get_cross_account_bedrock_client E acct tr"
    by (simp add: choose_client_cross)
  obtain b trb where b: "get_cross_account_bedrock_client E acct tr = (b, trb)"
    by (cases "get_cross_account_bedrock_client E acct tr")
  have trb: "trb = tr @ AssumeRole (REGION E) (assume_role_kwargs acct) #
       (case assume_role E tr (assume_role_kwargs acct) of
          Inl code \<Rightarrow> []
        | Inr creds \<Rightarrow> [GetCallerIdentity (isolated_session E creds)])"
    using broker_trace [of E acct tr] b by simp
  show "case get_cross_account_bedrock_client E acct tr of
               (Inr c, trb) \<Rightarrow>
                 snd (invoke_bedrock_agent E ag u sid tr)
                   = trb @ [InvokeAgent c (invoke_agent_kwargs ag alias sid u)]
                 \<and> c \<noteq> bedrock_client E
             | (Inl e, trb) \<Rightarrow> invoke_bedrock_agent E ag u sid tr = (Inl e, trb)"
  proof (cases b)
    case (Inl e)
    with b cc dispatch_broker_failed [OF assms, of E tr e trb] show ?thesis by simp
  next
    case (Inr c)
    from Inr b have "fst (get_cross_account_bedrock_client E acct tr) = Inr c" by simp
    from broker_client [OF this] have "c \<noteq> bedrock_client E"
      by (auto simp: bedrock_client_def)
    with Inr b cc dispatch_trace [OF assms, of E tr c trb] show ?thesis by simp
  qed
  show "filter is_AssumeRole (snd (invoke_bedrock_agent E ag u sid tr))
          = filter is_AssumeRole tr @ [AssumeRole (REGION E) (assume_role_kwargs acct)]"
  proof (cases b)
    case (Inl e)
    with b cc dispatch_broker_failed [OF assms, of E tr e trb] trb show ?thesis
      by (simp split: sum.splits)
  next
    case (Inr c)
    with b cc dispatch_trace [OF assms, of E tr c trb] trb show ?thesis
      by (simp split: sum.splits)
  qed
next
  assume "account_id ag = None \<or> account_id ag = Some [] \<or> account_id ag = Some LOCAL_ACCOUNT_ID"
  from choose_client_local [OF this] dispatch_trace [OF assms]
  show "snd (invoke_bedrock_agent E ag u sid tr)
          = tr @ [InvokeAgent (bedrock_client E) (invoke_agent_kwargs ag alias sid u)]"
    by simp
qed

theorem dispatch_routing_witness:
  "alias_id vessel_agent = Some (lit ''IO1GTTHP0M'') \<and> lit ''IO1GTTHP0M'' \<noteq> []
   \<and> account_id vessel_agent = Some (lit ''152864141302'')
   \<and> lit ''152864141302'' \<noteq> [] \<and> lit ''152864141302'' \<noteq> LOCAL_ACCOUNT_ID
   \<and> fst (get_cross_account_bedrock_client hello_env (lit ''152864141302'') [])
       = Inr (SessionClient (isolated_session hello_env
                \<lparr>AccessKeyId = lit ''ASIA'' @ [0], SecretAccessKey = lit ''secret'',
                 SessionToken = lit ''token''\<rparr>))
   \<and> snd (invoke_bedrock_agent hello_env vessel_agent (lit ''Hi'') (lit ''s1'') [])
       = [AssumeRole (lit ''us-east-1'') (assume_role_kwargs (lit ''152864141302'')),
          GetCallerIdentity (isolated_session hello_env
                \<lparr>AccessKeyId = lit ''ASIA'' @ [0], SecretAccessKey = lit ''secret'',
                 SessionToken = lit ''token''\<rparr>),
          InvokeAgent (SessionClient (isolated_session hello_env
                \<lparr>AccessKeyId = lit ''ASIA'' @ [0], SecretAccessKey = lit ''secret'',
                 SessionToken = lit ''token''\<rparr>))
            (invoke_agent_kwargs vessel_agent (lit ''IO1GTTHP0M'') (lit ''s1'') (lit ''Hi''))]
   \<and> alias_id local_agent = Some (lit ''IO1GTTHP0M'') \<and> account_id local_agent = None
   \<and> snd (invoke_bedrock_agent hello_env local_agent (lit ''Hi'') (lit ''s1'') [])
       = [InvokeAgent (bedrock_client hello_env)
            (invoke_agent_kwargs local_agent (lit ''IO1GTTHP0M'') (lit ''s1'') (lit ''Hi''))]"
proof -
  have a: "alias_id vessel_agent = Some (lit ''IO1GTTHP0M'')" by (simp add: vessel_agent_def)
  have acc: "account_id vessel_agent = Some (lit ''152864141302'')"
    by (simp add: vessel_agent_def)
  have ne: "lit ''152864141302'' \<noteq> []" "lit ''152864141302'' \<noteq> LOCAL_ACCOUNT_ID"
    by (simp_all add: lit_def LOCAL_ACCOUNT_ID_def)
  have reg: "REGION hello_env = lit ''us-east-1''"
    by (simp add: REGION_def hello_env_def example_env_def)
  have br: "get_cross_account_bedrock_client hello_env (lit ''152864141302'') []
            = (Inr (SessionClient (isolated_session hello_env
                \<lparr>AccessKeyId = lit ''ASIA'' @ [0], SecretAccessKey = lit ''secret'',
                 SessionToken = lit ''token''\<rparr>)),
               [AssumeRole (lit ''us-east-1'') (assume_role_kwargs (lit ''152864141302'')),
                GetCallerIdentity (isolated_session hello_env
                \<lparr>AccessKeyId = lit ''ASIA'' @ [0], SecretAccessKey = lit ''secret'',
                 SessionToken = lit ''token''\<rparr>)])"
    by (simp add: get_cross_account_bedrock_client_def Let_def reg hello_assume hello_identity)
  have la: "account_id local_agent = None" by (simp add: local_agent_def)
  from dispatch_routing [OF a alias_not_empty, where E = hello_env and tr = "[]"
         and u = "lit ''Hi''" and sid = "lit ''s1''"]
       acc ne br
  have cross: "snd (invoke_bedrock_agent hello_env vessel_agent (lit ''Hi'') (lit ''s1'') [])
       = [AssumeRole (lit ''us-east-1'') (assume_role_kwargs (lit ''152864141302'')),
          GetCallerIdentity (isolated_session hello_env
                \<lparr>AccessKeyId = lit ''ASIA'' @ [0], SecretAccessKey = lit ''secret'',
                 SessionToken = lit ''token''\<rparr>),
          InvokeAgent (SessionClient (isolated_session hello_env
                \<lparr>AccessKeyId = lit ''ASIA'' @ [0], SecretAccessKey = lit ''secret'',
                 SessionToken = lit ''token''\<rparr>))
            (invoke_agent_kwargs vessel_agent (lit ''IO1GTTHP0M'') (lit ''s1'') (lit ''Hi''))]"
    by simp
  from dispatch_routing [OF local_agent_alias alias_not_empty, where E = hello_env and tr = "[]"
         and u = "lit ''Hi''" and sid = "lit ''s1''"] la
  have loc: "snd (invoke_bedrock_agent hello_env local_agent (lit ''Hi'') (lit ''s1'') [])
       = [InvokeAgent (bedrock_client hello_env)
            (invoke_agent_kwargs local_agent (lit ''IO1GTTHP0M'') (lit ''s1'') (lit ''Hi''))]"
    by simp
  from a alias_not_empty acc ne br cross local_agent_alias la loc show ?thesis by simp
qed

theorem dispatch_routing_counterexample:
  "account_id no_alias_agent = Some (lit ''152864141302'')
   \<and> lit ''152864141302'' \<noteq> LOCAL_ACCOUNT_ID
   \<and> snd (invoke_bedrock_agent hello_env no_alias_agent (lit ''Hi'') (lit ''s1'') []) = []
   \<and> account_id empty_account_agent = Some []
   \<and> [] \<noteq> LOCAL_ACCOUNT_ID
   \<and> snd (invoke_bedrock_agent hello_env empty_account_agent (lit ''Hi'') (lit ''s1'') [])
       = [InvokeAgent (bedrock_client hello_env)
            (invoke_agent_kwargs empty_account_agent (lit ''IO1GTTHP0M'') (lit ''s1'')
               (lit ''Hi''))]"
proof -
  have first: "account_id no_alias_agent = Some (lit ''152864141302'')
     \<and> lit ''152864141302'' \<noteq> LOCAL_ACCOUNT_ID
     \<and> snd (invoke_bedrock_agent hello_env no_alias_agent (lit ''Hi'') (lit ''s1'') []) = []"
    by (simp add: invoke_bedrock_agent_def no_alias_agent_def vessel_agent_def lit_def
          LOCAL_ACCOUNT_ID_def)
  have acc: "account_id empty_account_agent = Some []" "[] \<noteq> LOCAL_ACCOUNT_ID"
    by (simp_all add: empty_account_agent_def LOCAL_ACCOUNT_ID_def lit_def)
  have al: "alias_id empty_account_agent = Some (lit ''IO1GTTHP0M'')"
    by (simp add: empty_account_agent_def vessel_agent_def)
  have cc: "choose_client hello_env empty_account_agent [] = (Inr (bedrock_client hello_env), [])"
    by (simp add: choose_client_def acc)
  from dispatch_trace [OF al alias_not_empty cc] first acc show ?thesis by simp
qed

section \<open>The credential broker\<close>

text \<open>
  Claim C2. When the role assumption succeeded and the identity of the new session
  resolves to an account other than the requested one,
  \<open>get_cross_account_bedrock_client\<close> raises its own exception, the plain
  \<open>Exception("Expected account ..., got ...")\<close>: this is the isolation failure of the
  claim. It returns no client, and the exception differs from every exception that a
  refused role assumption raises, for any environment, account and history.
\<close>

theorem identity_mismatch_is_isolation_failure:
  assumes "assume_role E tr (assume_role_kwargs acct) = Inr creds"
    and "get_caller_identity E (tr @ [AssumeRole (REGION E) (assume_role_kwargs acct)])
           (isolated_session E creds) = Inr ident"
    and "ident \<noteq> acct"
  shows "fst (get_cross_account_bedrock_client E acct tr)
           = Inl (PyException (lit ''Expected account '' @ acct @ lit '', got '' @ ident))
         \<and> (\<forall>c. fst (get_cross_account_bedrock_client E acct tr) \<noteq> Inr c)
         \<and> (\<forall>E' tr' acct' code.
               assume_role E' tr' (assume_role_kwargs acct') = Inl code \<longrightarrow>
               fst (get_cross_account_bedrock_client E' acct' tr') = Inl (BotoError code)
               \<and> fst (get_cross_account_bedrock_client E' acct' tr')
                   \<noteq> fst (get_cross_account_bedrock_client E acct tr))"
proof -
  have r: "fst (get_cross_account_bedrock_client E acct tr)
           = Inl (PyException (lit ''Expected account '' @ acct @ lit '', got '' @ ident))"
    using assms by (simp add: get_cross_account_bedrock_client_def Let_def)
  have d: "fst (get_cross_account_bedrock_client E' acct' tr') = Inl (BotoError code)"
    if "assume_role E' tr' (assume_role_kwargs acct') = Inl code" for E' tr' acct' code
    using that by (simp add: get_cross_account_bedrock_client_def Let_def)
  show ?thesis using r d by simp
qed

theorem identity_mismatch_is_isolation_failure_witness:
  "assume_role hello_env [] (assume_role_kwargs other_account)
     = Inr \<lparr>AccessKeyId = lit ''ASIA'' @ [0], SecretAccessKey = lit ''secret'',
            SessionToken = lit ''token''\<rparr>
   \<and> get_caller_identity hello_env
        ([] @ [AssumeRole (REGION hello_env) (assume_role_kwargs other_account)])
        (isolated_session hello_env
           \<lparr>AccessKeyId = lit ''ASIA'' @ [0], SecretAccessKey = lit ''secret'',
            SessionToken = lit ''token''\<rparr>)
       = Inr (lit ''152864141302'')
   \<and> lit ''152864141302'' \<noteq> other_account
   \<and> fst (get_cross_account_bedrock_client hello_env other_account [])
       = Inl (PyException (lit ''Expected account 111111111111, got 152864141302''))"
proof -
  have a: "assume_role hello_env [] (assume_role_kwargs other_account)
     = Inr \<lparr>AccessKeyId = lit ''ASIA'' @ [0], SecretAccessKey = lit ''secret'',
            SessionToken = lit ''token''\<rparr>"
    by (simp add: hello_assume)
  have b: "get_caller_identity hello_env
        ([] @ [AssumeRole (REGION hello_env) (assume_role_kwargs other_account)])
        (isolated_session hello_env
           \<lparr>AccessKeyId = lit ''ASIA'' @ [0], SecretAccessKey = lit ''secret'',
            SessionToken = lit ''token''\<rparr>)
       = Inr (lit ''152864141302'')"
    by (simp add: hello_identity)
  have c: "lit ''152864141302'' \<noteq> other_account"
    by (simp add: other_account_def lit_def)
  have m: "lit ''Expected account '' @ other_account @ lit '', got '' @ lit ''152864141302''
           = lit ''Expected account 111111111111, got 152864141302''"
    by (simp add: other_account_def lit_def)
  from identity_mismatch_is_isolation_failure [OF a b c] a b c m show ?thesis by simp
qed

text \<open>
  Claim C4, as amended. The role that a cross-account acquisition asks for is the one
  fixed constant \<open>CROSS_ACCOUNT_ROLE_ARN\<close>, whatever the target account; only the name
  of the role session carries the target account. The pre-shared external identifier is
  presented with every assumption request. The first call of every acquisition is this
  request.
\<close>

theorem assume_role_request_presented:
  "take (Suc (length tr)) (snd (get_cross_account_bedrock_client E acct tr))
     = tr @ [AssumeRole (REGION E)
               \<lparr>RoleArn = lit ''arn:aws:iam::152864141302:role/cmcCrossAccountBedrockInvokeRole'',
                RoleSessionName = lit ''HubSession-'' @ acct,
                ExternalId = lit ''bedrock-cross-account-2024''\<rparr>]"
  by (simp add: broker_trace assume_role_kwargs_def CROSS_ACCOUNT_ROLE_ARN_def
        CROSS_ACCOUNT_EXTERNAL_ID_def)

theorem role_arn_not_parameterized_counterexample:
  "other_account = lit ''111111111111'' \<and> other_account \<noteq> lit ''152864141302''
   \<and> take 1 (snd (get_cross_account_bedrock_client hello_env other_account []))
       = [AssumeRole (lit ''us-east-1'')
            \<lparr>RoleArn = lit ''arn:aws:iam::152864141302:role/cmcCrossAccountBedrockInvokeRole'',
             RoleSessionName = lit ''HubSession-111111111111'',
             ExternalId = lit ''bedrock-cross-account-2024''\<rparr>]
   \<and> RoleArn (assume_role_kwargs other_account)
       = RoleArn (assume_role_kwargs (lit ''152864141302''))"
  by (simp add: broker_trace hello_region assume_role_kwargs_def CROSS_ACCOUNT_ROLE_ARN_def
        CROSS_ACCOUNT_EXTERNAL_ID_def other_account_def lit_def)

text \<open>
  Claim C9. Every call of \<open>get_cross_account_bedrock_client\<close>, from any history of
  earlier calls, records exactly one new role assumption, made with the request for
  this account: no earlier result stands in for it, and nothing follows a refused
  assumption. A client it returns is built from the credentials that this very
  assumption answered with.
\<close>

theorem one_fresh_assumption_per_call:
  "filter is_AssumeRole (snd (get_cross_account_bedrock_client E acct tr))
     = filter is_AssumeRole tr @ [AssumeRole (REGION E) (assume_role_kwargs acct)]
   \<and> take (length tr) (snd (get_cross_account_bedrock_client E acct tr)) = tr
   \<and> (\<forall>code. assume_role E tr (assume_role_kwargs acct) = Inl code \<longrightarrow>
         get_cross_account_bedrock_client E acct tr
           = (Inl (BotoError code), tr @ [AssumeRole (REGION E) (assume_role_kwargs acct)]))
   \<and> (\<forall>c. fst (get_cross_account_bedrock_client E acct tr) = Inr c \<longrightarrow>
         (\<exists>creds. assume_role E tr (assume_role_kwargs acct) = Inr creds
                  \<and> c = SessionClient (isolated_session E creds)))"
proof (intro conjI allI impI)
  show "filter is_AssumeRole (snd (get_cross_account_bedrock_client E acct tr))
     = filter is_AssumeRole tr @ [AssumeRole (REGION E) (assume_role_kwargs acct)]"
    by (simp add: broker_trace split: sum.splits)
  show "take (length tr) (snd (get_cross_account_bedrock_client E acct tr)) = tr"
    by (simp add: broker_trace)
next
  fix code
  assume "assume_role E tr (assume_role_kwargs acct) = Inl code"
  then show "get_cross_account_bedrock_client E acct tr
           = (Inl (BotoError code), tr @ [AssumeRole (REGION E) (assume_role_kwargs acct)])"
    by (simp add: get_cross_account_bedrock_client_def Let_def)
next
  fix c
  assume "fst (get_cross_account_bedrock_client E acct tr) = Inr c"
  then show "\<exists>creds. assume_role E tr (assume_role_kwargs acct) = Inr creds
                  \<and> c = SessionClient (isolated_session E creds)"
    by (rule broker_client)
qed

theorem one_fresh_assumption_per_call_witness:
  "fst (get_cross_account_bedrock_client hello_env (lit ''152864141302'') [])
     = Inr (SessionClient (isolated_session hello_env
              \<lparr>AccessKeyId = lit ''ASIA'' @ [0], SecretAccessKey = lit ''secret'',
               SessionToken = lit ''token''\<rparr>))
   \<and> assume_role hello_env [] (assume_role_kwargs (lit ''152864141302''))
       = Inr \<lparr>AccessKeyId = lit ''ASIA'' @ [0], SecretAccessKey = lit ''secret'',
              SessionToken = lit ''token''\<rparr>
   \<and> assume_role (denying_env) [] (assume_role_kwargs (lit ''152864141302''))
       = Inl (lit ''AccessDenied'')
   \<and> get_cross_account_bedrock_client denying_env (lit ''152864141302'') []
       = (Inl (BotoError (lit ''AccessDenied'')),
          [AssumeRole (REGION denying_env) (assume_role_kwargs (lit ''152864141302''))])
   \<and> filter is_AssumeRole
        (snd (get_cross_account_bedrock_client hello_env (lit ''152864141302'')
           (snd (get_cross_account_bedrock_client hello_env (lit ''152864141302'') []))))
       = [AssumeRole (REGION hello_env) (assume_role_kwargs (lit ''152864141302'')),
          AssumeRole (REGION hello_env) (assume_role_kwargs (lit ''152864141302''))]"
proof -
  have den: "assume_role (denying_env) [] (assume_role_kwargs (lit ''152864141302''))
       = Inl (lit ''AccessDenied'')"
    by (simp add: denying_env_def)
  have ok: "fst (get_cross_account_bedrock_client hello_env (lit ''152864141302'') [])
     = Inr (SessionClient (isolated_session hello_env
              \<lparr>AccessKeyId = lit ''ASIA'' @ [0], SecretAccessKey = lit ''secret'',
               SessionToken = lit ''token''\<rparr>))"
    by (simp add: get_cross_account_bedrock_client_def Let_def hello_assume hello_identity)
  note first = one_fresh_assumption_per_call
                 [of hello_env "lit ''152864141302''" "[]"]
  note second = one_fresh_assumption_per_call
                  [of hello_env "lit ''152864141302''"
                      "snd (get_cross_account_bedrock_client hello_env (lit ''152864141302'') [])"]
  note denied = one_fresh_assumption_per_call
                  [of denying_env "lit ''152864141302''" "[]"]
  from first second denied den ok hello_assume [of "[]"] show ?thesis by simp
qed


section \<open>The reassembled response\<close>

text \<open>
  Claim C8. When the invocation answered with a stream whose byte fragments all decode,
  the text that the loop of the dispatcher builds is the concatenation of the decoded
  fragments in arrival order, and the dispatch returns this text whenever it is not
  empty. The fragments \<open>Hel\<close>, \<open>lo, \<close> and \<open>world\<close> give \<open>Hello, world\<close>.
\<close>
theorem chunks_reassembled_in_order:
  assumes "alias_id ag = Some alias" and "alias \<noteq> []"
    and "choose_client E ag tr = (Inr c, tr1)"
    and "invoke_agent E tr1 c (invoke_agent_kwargs ag alias sid u) = Inr resp"
    and "map decode (chunk_bytes (completion_events resp)) = map Inr ts"
  shows "process_streaming_response [] (completion_events resp) = Inr (concat ts)
         \<and> (concat ts \<noteq> [] \<longrightarrow> fst (invoke_bedrock_agent E ag u sid tr) = Inr (concat ts))"
proof -
  have loop: "process_streaming_response [] (completion_events resp) = Inr (concat ts)"
    using stream_concat [OF assms(5), of "[]"] by simp
  show ?thesis
    using loop dispatch_invoked [OF assms(1-4)] by simp
qed

theorem chunks_reassembled_in_order_witness:
  "alias_id local_agent = Some (lit ''IO1GTTHP0M'') \<and> lit ''IO1GTTHP0M'' \<noteq> []
   \<and> choose_client hello_env local_agent [] = (Inr (bedrock_client hello_env), [])
   \<and> invoke_agent hello_env [] (bedrock_client hello_env)
        (invoke_agent_kwargs local_agent (lit ''IO1GTTHP0M'') (lit ''s1'') (lit ''Hi''))
      = Inr \<lparr>completion = Some [chunk_event (ascii ''Hel''), chunk_event (ascii ''lo, ''),
                  chunk_event (ascii ''world'')]\<rparr>
   \<and> fst (invoke_bedrock_agent hello_env local_agent (lit ''Hi'') (lit ''s1'') [])
       = Inr (lit ''Hello, world'')"
proof -
  have a: "alias_id local_agent = Some (lit ''IO1GTTHP0M'')"
    by (simp add: local_agent_def vessel_agent_def)
  have b: "lit ''IO1GTTHP0M'' \<noteq> []" by (simp add: lit_def)
  have c: "choose_client hello_env local_agent [] = (Inr (bedrock_client hello_env), [])"
    by (simp add: choose_client_def local_agent_def)
  have d: "invoke_agent hello_env [] (bedrock_client hello_env)
        (invoke_agent_kwargs local_agent (lit ''IO1GTTHP0M'') (lit ''s1'') (lit ''Hi''))
      = Inr \<lparr>completion = Some [chunk_event (ascii ''Hel''), chunk_event (ascii ''lo, ''),
                  chunk_event (ascii ''world'')]\<rparr>"
    by (simp add: hello_env_def example_env_def)
  have e: "map decode (chunk_bytes (completion_events \<lparr>completion = Some [chunk_event (ascii ''Hel''), chunk_event (ascii ''lo, ''),
                  chunk_event (ascii ''world'')]\<rparr>)) = map Inr [lit ''Hel'', lit ''lo, '', lit ''world'']"
    by (simp add: completion_events_def hello_fragments)
  have f: "concat [lit ''Hel'', lit ''lo, '', lit ''world''] = lit ''Hello, world''"
    by (simp add: lit_def)
  have g: "lit ''Hello, world'' \<noteq> []" by (simp add: lit_def)
  from chunks_reassembled_in_order [OF a b c d e, unfolded f] g a b c d
  show ?thesis by simp
qed

text \<open>
  Claim C3, as amended. When the reassembled text is empty, which is the case for a
  stream without chunks, the dispatch returns the text \<open>No response from agent.\<close> and
  not the empty text. A stream whose chunks decode to the empty text gives the very
  same result, so the result does not tell the two cases apart.
\<close>
theorem empty_text_gives_sentinel:
  assumes "alias_id ag = Some alias" and "alias \<noteq> []"
    and "choose_client E ag tr = (Inr c, tr1)"
    and "invoke_agent E tr1 c (invoke_agent_kwargs ag alias sid u) = Inr resp"
    and "map decode (chunk_bytes (completion_events resp)) = map Inr ts"
    and "concat ts = []"
  shows "fst (invoke_bedrock_agent E ag u sid tr) = Inr (lit ''No response from agent.'')
         \<and> fst (invoke_bedrock_agent E ag u sid tr) \<noteq> Inr []"
proof -
  have "process_streaming_response [] (completion_events resp) = Inr []"
    using stream_concat [OF assms(5), of "[]"] assms(6) by simp
  then have "fst (invoke_bedrock_agent E ag u sid tr) = Inr (lit ''No response from agent.'')"
    using dispatch_invoked [OF assms(1-4)] by simp
  then show ?thesis by (simp add: lit_def)
qed

theorem empty_text_gives_sentinel_witness:
  "alias_id local_agent = Some (lit ''IO1GTTHP0M'') \<and> lit ''IO1GTTHP0M'' \<noteq> []
   \<and> choose_client silent_env local_agent [] = (Inr (bedrock_client silent_env), [])
   \<and> invoke_agent silent_env [] (bedrock_client silent_env)
        (invoke_agent_kwargs local_agent (lit ''IO1GTTHP0M'') (lit ''s1'') (lit ''Hi''))
      = Inr \<lparr>completion = Some []\<rparr>
   \<and> chunk_bytes (completion_events \<lparr>completion = Some []\<rparr>) = []
   \<and> fst (invoke_bedrock_agent silent_env local_agent (lit ''Hi'') (lit ''s1'') [])
       = Inr (lit ''No response from agent.'')"
proof -
  have a: "alias_id local_agent = Some (lit ''IO1GTTHP0M'')"
    by (simp add: local_agent_def vessel_agent_def)
  have b: "lit ''IO1GTTHP0M'' \<noteq> []" by (simp add: lit_def)
  have c: "choose_client silent_env local_agent [] = (Inr (bedrock_client silent_env), [])"
    by (simp add: choose_client_def local_agent_def)
  have d: "invoke_agent silent_env [] (bedrock_client silent_env)
        (invoke_agent_kwargs local_agent (lit ''IO1GTTHP0M'') (lit ''s1'') (lit ''Hi''))
      = Inr \<lparr>completion = Some []\<rparr>"
    by (simp add: silent_env_def example_env_def)
  have z: "chunk_bytes (completion_events \<lparr>completion = Some []\<rparr>) = []"
    by (simp add: completion_events_def chunk_bytes_Nil)
  have e: "map decode (chunk_bytes (completion_events \<lparr>completion = Some []\<rparr>)) = map Inr []"
    by (simp add: z)
  have f: "concat ([] :: str list) = []" by simp
  from empty_text_gives_sentinel [OF a b c d e f] a b c d z
  show ?thesis by simp
qed

theorem sentinel_not_distinguishable_counterexample:
  "chunk_bytes [] = [] \<and> chunk_bytes [chunk_event []] = [] # [] \<and> decode [] = Inr []
   \<and> fst (invoke_bedrock_agent silent_env local_agent (lit ''Hi'') (lit ''s1'') [])
       = fst (invoke_bedrock_agent empty_chunk_env local_agent (lit ''Hi'') (lit ''s1'') [])"
  by (simp add: chunk_bytes_Nil chunk_bytes_Cons chunk_event_def decode_def
        invoke_bedrock_agent_def choose_client_def local_agent_def vessel_agent_def
        silent_env_def empty_chunk_env_def example_env_def completion_events_def
        invoke_agent_kwargs_def lit_def)

text \<open>
  Claim C5. When the stream of the invocation holds a chunk whose bytes are not
  well-formed UTF-8, the dispatch ends with the decoding error: the chunk is not passed
  over and no text is returned.
\<close>
theorem undecodable_chunk_is_fatal:
  assumes "alias_id ag = Some alias" and "alias \<noteq> []"
    and "choose_client E ag tr = (Inr c, tr1)"
    and "invoke_agent E tr1 c (invoke_agent_kwargs ag alias sid u) = Inr resp"
    and "bs \<in> set (chunk_bytes (completion_events resp))"
    and "utf8_decode bs = None"
  shows "fst (invoke_bedrock_agent E ag u sid tr) = Inl UnicodeDecodeError"
  using stream_failure [OF assms(5,6), of "[]"] dispatch_invoked [OF assms(1-4)] by simp

theorem undecodable_chunk_is_fatal_witness:
  "alias_id local_agent = Some (lit ''IO1GTTHP0M'') \<and> lit ''IO1GTTHP0M'' \<noteq> []
   \<and> choose_client garbled_env local_agent [] = (Inr (bedrock_client garbled_env), [])
   \<and> invoke_agent garbled_env [] (bedrock_client garbled_env)
        (invoke_agent_kwargs local_agent (lit ''IO1GTTHP0M'') (lit ''s1'') (lit ''Hi''))
      = Inr \<lparr>completion = Some [chunk_event (ascii ''Hel''), chunk_event [0xFF],
                                 chunk_event (ascii ''lo'')]\<rparr>
   \<and> [0xFF] \<in> set (chunk_bytes (completion_events
        \<lparr>completion = Some [chunk_event (ascii ''Hel''), chunk_event [0xFF],
                            chunk_event (ascii ''lo'')]\<rparr>))
   \<and> utf8_decode [0xFF] = None
   \<and> fst (invoke_bedrock_agent garbled_env local_agent (lit ''Hi'') (lit ''s1'') [])
       = Inl UnicodeDecodeError"
proof -
  have a: "alias_id local_agent = Some (lit ''IO1GTTHP0M'')"
    by (simp add: local_agent_def vessel_agent_def)
  have b: "lit ''IO1GTTHP0M'' \<noteq> []" by (simp add: lit_def)
  have c: "choose_client garbled_env local_agent [] = (Inr (bedrock_client garbled_env), [])"
    by (simp add: choose_client_def local_agent_def)
  have d: "invoke_agent garbled_env [] (bedrock_client garbled_env)
        (invoke_agent_kwargs local_agent (lit ''IO1GTTHP0M'') (lit ''s1'') (lit ''Hi''))
      = Inr \<lparr>completion = Some [chunk_event (ascii ''Hel''), chunk_event [0xFF],
                                 chunk_event (ascii ''lo'')]\<rparr>"
    by (simp add: garbled_env_def example_env_def)
  have e: "[0xFF] \<in> set (chunk_bytes (completion_events
        \<lparr>completion = Some [chunk_event (ascii ''Hel''), chunk_event [0xFF],
                            chunk_event (ascii ''lo'')]\<rparr>))"
    by (simp add: completion_events_def chunk_bytes_Cons chunk_bytes_Nil chunk_event_def)
  have f: "utf8_decode [0xFF] = None" by simp
  from undecodable_chunk_is_fatal [OF a b c d e f] a b c d e f
  show ?thesis by simp
qed

text \<open>
  Claim C6, as amended. For a record whose \<open>alias_id\<close> is missing or empty the dispatch
  returns, as its ordinary text result, the text \<open>Error: Missing alias_id for agent\<close>
  followed by the agent identifier, and makes no call at all: no role assumption and
  no agent invocation.
\<close>
theorem missing_alias_returns_text:
  assumes "alias_id ag = None \<or> alias_id ag = Some []"
  shows "invoke_bedrock_agent E ag u sid tr =
           (Inr (lit ''Error: Missing alias_id for agent '' @ fmt (agent_id ag)), tr)"
  using assms by (auto simp: invoke_bedrock_agent_def missing_alias_text_def)

theorem missing_alias_returns_text_witness:
  "(alias_id no_alias_agent = None \<or> alias_id no_alias_agent = Some [])
   \<and> invoke_bedrock_agent hello_env no_alias_agent (lit ''Hi'') (lit ''s1'') []
       = (Inr (lit ''Error: Missing alias_id for agent PEGHWIVI5Y''), [])"
proof -
  have a: "alias_id no_alias_agent = None \<or> alias_id no_alias_agent = Some []"
    by (simp add: no_alias_agent_def)
  have b: "lit ''Error: Missing alias_id for agent '' @ fmt (agent_id no_alias_agent)
           = lit ''Error: Missing alias_id for agent PEGHWIVI5Y''"
    by (simp add: no_alias_agent_def vessel_agent_def fmt_def lit_def)
  from missing_alias_returns_text [OF a, of hello_env "lit ''Hi''" "lit ''s1''" "[]"] a b
  show ?thesis by simp
qed

theorem missing_alias_is_plain_text_counterexample:
  "alias_id no_alias_agent = Some []
   \<and> alias_id local_agent = Some (lit ''IO1GTTHP0M'')
   \<and> snd (invoke_bedrock_agent echo_env local_agent (lit ''Hi'') (lit ''s1'') [])
       = [InvokeAgent (bedrock_client echo_env)
            (invoke_agent_kwargs local_agent (lit ''IO1GTTHP0M'') (lit ''s1'') (lit ''Hi''))]
   \<and> fst (invoke_bedrock_agent echo_env no_alias_agent (lit ''Hi'') (lit ''s1'') [])
       = fst (invoke_bedrock_agent echo_env local_agent (lit ''Hi'') (lit ''s1'') [])"
  by (simp add: invoke_bedrock_agent_def choose_client_def local_agent_def no_alias_agent_def
        vessel_agent_def echo_env_def example_env_def completion_events_def
        invoke_agent_kwargs_def missing_alias_text_def fmt_def chunk_event_def decode_def
        ascii_def lit_def)

section \<open>The upload-url route\<close>

text \<open>
  Claim C10. For a request whose body holds a filename and whose bucket variable is
  set, when the presigner answers the PutObject command for the key
  \<open>sourceDocs/\<close> followed by the filename with the expiry of 1500 seconds, the handler
  answers with that URL and with the path \<open>s3://\<close>, the bucket, \<open>/sourceDocs/\<close> and
  the filename. The filename enters key and path as it came: nothing checks it.
\<close>

theorem upload_url_reply:
  assumes "filename body = Some fn"
    and "S3_BUCKET_NAME penv = Some bucket"
    and "getSignedUrl (s3Client penv)
           \<lparr>Bucket = Some bucket, Key = ''sourceDocs/'' @ fn, ContentType = contentType body\<rparr>
           \<lparr>expiresIn = 1500\<rparr> = Inr url"
  shows "POST penv getSignedUrl (Inr body) =
           Inr \<lparr>uploadUrl = url, s3Path = ''s3://'' @ bucket @ ''/sourceDocs/'' @ fn\<rparr>"
  using assms by (simp add: POST_def Let_def tmpl_def)

theorem upload_url_reply_witness:
  "filename \<lparr>filename = Some ''../../etc/x'', contentType = Some ''text/plain''\<rparr>
     = Some ''../../etc/x''
   \<and> S3_BUCKET_NAME example_route_env = Some ''docs''
   \<and> example_signer (s3Client example_route_env)
        \<lparr>Bucket = Some ''docs'', Key = ''sourceDocs/'' @ ''../../etc/x'',
         ContentType = contentType \<lparr>filename = Some ''../../etc/x'',
                                    contentType = Some ''text/plain''\<rparr>\<rparr>
        \<lparr>expiresIn = 1500\<rparr>
       = Inr ''https://docs.s3.amazonaws.com/sourceDocs/../../etc/x?X-Amz-Expires=1500''
   \<and> POST example_route_env example_signer
        (Inr \<lparr>filename = Some ''../../etc/x'', contentType = Some ''text/plain''\<rparr>)
       = Inr \<lparr>uploadUrl =
                ''https://docs.s3.amazonaws.com/sourceDocs/../../etc/x?X-Amz-Expires=1500'',
              s3Path = ''s3://docs/sourceDocs/../../etc/x''\<rparr>"
proof -
  have n: "show_nat 1500 = ''1500''" by code_simp
  have a: "filename \<lparr>filename = Some ''../../etc/x'', contentType = Some ''text/plain''\<rparr>
             = Some ''../../etc/x''"
    by simp
  have b: "S3_BUCKET_NAME example_route_env = Some ''docs''"
    by (simp add: example_route_env_def)
  have c: "example_signer (s3Client example_route_env)
        \<lparr>Bucket = Some ''docs'', Key = ''sourceDocs/'' @ ''../../etc/x'',
         ContentType = contentType \<lparr>filename = Some ''../../etc/x'',
                                    contentType = Some ''text/plain''\<rparr>\<rparr>
        \<lparr>expiresIn = 1500\<rparr>
       = Inr ''https://docs.s3.amazonaws.com/sourceDocs/../../etc/x?X-Amz-Expires=1500''"
    by (simp add: example_signer_def tmpl_def n)
  from upload_url_reply
         [where getSignedUrl = example_signer and penv = example_route_env
            and body = "\<lparr>filename = Some ''../../etc/x'', contentType = Some ''text/plain''\<rparr>",
          OF a b c] a b c
  show ?thesis by simp
qed

section \<open>The timeout of the upload handler\<close>

lemma upload_steps_reach_hub:
  assumes "fetch_upload_url uenv (file_name f) (file_type f) = Some (Inr res)"
    and "url_ok res" and "url_json res = Inr j"
    and "fetch_s3_put uenv (got_uploadUrl j) f = Some (Inr True)"
  shows "upload_steps uenv sid f st
           = Some (call_hub uenv sid (got_s3Path j) (st\<lparr>loading := True\<rparr>))"
  using assms by (simp add: upload_steps_def)

lemma call_hub_timeout:
  assumes "fetch_hub uenv (''Extract data from this S3 URI ('' @ tmpl path @ '')'') sid = None
           \<or> (\<exists>t r. fetch_hub uenv (''Extract data from this S3 URI ('' @ tmpl path @ '')'') sid
                       = Some (t, r) \<and> TIMEOUT_MS \<le> t)"
  shows "call_hub uenv sid path st = (Inl (new_Error TIMED_OUT), True)"
  using assms by (auto simp: call_hub_def Let_def inner_catch_def)

lemma call_hub_504:
  assumes "fetch_hub uenv (''Extract data from this S3 URI ('' @ tmpl path @ '')'') sid
             = Some (t, Inr hubRes)"
    and "t < TIMEOUT_MS" and "\<not> hub_ok hubRes" and "hub_status hubRes = 504"
  shows "call_hub uenv sid path st = (Inr (add_message st ''assistant'' STILL_PROCESSING), False)"
  using assms by (simp add: call_hub_def Let_def)

text \<open>
  Claim C7, as amended. In the upload flow, once the file is uploaded: when the request
  to the hub has not settled within 120000 milliseconds, the request in flight is
  aborted and the user is shown a message of role \<open>error\<close> with the text
  \<open>Request timed out - document processing is taking too long\<close>; the assistant message
  that processing continues in the background is shown when the hub answers in time
  with the status 504. Either way the handler ends with \<open>uploading\<close> and \<open>loading\<close>
  switched off.
\<close>

theorem hub_timeout_outcome:
  assumes "selected_file uenv = Some f"
    and "fetch_upload_url uenv (file_name f) (file_type f) = Some (Inr res)"
    and "url_ok res" and "url_json res = Inr j"
    and "fetch_s3_put uenv (got_uploadUrl j) f = Some (Inr True)"
  shows "(fetch_hub uenv (''Extract data from this S3 URI ('' @ tmpl (got_s3Path j) @ '')'') sid
            = None
          \<or> (\<exists>t r. fetch_hub uenv
                       (''Extract data from this S3 URI ('' @ tmpl (got_s3Path j) @ '')'') sid
                     = Some (t, r) \<and> TIMEOUT_MS \<le> t)
          \<longrightarrow> handleFileUpload uenv sid st =
                Some (st\<lparr>messages := messages st @
                           [\<lparr>role = ''user'',
                             content = [CHR 0xF0, CHR 0x9F, CHR 0x93, CHR 0x8E] @ '' ''
                                       @ file_name f\<rparr>,
                            \<lparr>role = ''error'',
                             content = ''Request timed out - document processing is taking too long''\<rparr>],
                         uploading := False, loading := False\<rparr>, True))
         \<and> (\<forall>t hubRes.
               fetch_hub uenv (''Extract data from this S3 URI ('' @ tmpl (got_s3Path j) @ '')'') sid
                 = Some (t, Inr hubRes)
               \<and> t < TIMEOUT_MS \<and> \<not> hub_ok hubRes \<and> hub_status hubRes = 504
               \<longrightarrow> handleFileUpload uenv sid st =
                     Some (st\<lparr>messages := messages st @
                                [\<lparr>role = ''user'',
                                  content = [CHR 0xF0, CHR 0x9F, CHR 0x93, CHR 0x8E] @ '' ''
                                            @ file_name f\<rparr>,
                                 \<lparr>role = ''assistant'', content = STILL_PROCESSING\<rparr>],
                              uploading := False, loading := False\<rparr>, False))"
proof (intro conjI allI impI)
  assume "fetch_hub uenv (''Extract data from this S3 URI ('' @ tmpl (got_s3Path j) @ '')'') sid
            = None
          \<or> (\<exists>t r. fetch_hub uenv
                       (''Extract data from this S3 URI ('' @ tmpl (got_s3Path j) @ '')'') sid
                     = Some (t, r) \<and> TIMEOUT_MS \<le> t)"
  from call_hub_timeout [OF this] upload_steps_reach_hub [OF assms(2-5)] assms(1)
  show "handleFileUpload uenv sid st =
                Some (st\<lparr>messages := messages st @
                           [\<lparr>role = ''user'',
                             content = [CHR 0xF0, CHR 0x9F, CHR 0x93, CHR 0x8E] @ '' ''
                                       @ file_name f\<rparr>,
                            \<lparr>role = ''error'',
                             content = ''Request timed out - document processing is taking too long''\<rparr>],
                         uploading := False, loading := False\<rparr>, True)"
    by (simp add: handleFileUpload_def Let_def add_message_def new_Error_def TIMED_OUT_def)
next
  fix t hubRes
  assume "fetch_hub uenv (''Extract data from this S3 URI ('' @ tmpl (got_s3Path j) @ '')'') sid
                 = Some (t, Inr hubRes)
               \<and> t < TIMEOUT_MS \<and> \<not> hub_ok hubRes \<and> hub_status hubRes = 504"
  then have "call_hub uenv sid (got_s3Path j)
               (add_message (st\<lparr>uploading := True\<rparr>) ''user''
                  ([CHR 0xF0, CHR 0x9F, CHR 0x93, CHR 0x8E] @ '' '' @ file_name f)
                \<lparr>loading := True\<rparr>)
             = (Inr (add_message
                       (add_message (st\<lparr>uploading := True\<rparr>) ''user''
                          ([CHR 0xF0, CHR 0x9F, CHR 0x93, CHR 0x8E] @ '' '' @ file_name f)
                        \<lparr>loading := True\<rparr>)
                       ''assistant'' STILL_PROCESSING), False)"
    by (intro call_hub_504) auto
  with upload_steps_reach_hub [OF assms(2-5)] assms(1)
  show "handleFileUpload uenv sid st =
                     Some (st\<lparr>messages := messages st @
                                [\<lparr>role = ''user'',
                                  content = [CHR 0xF0, CHR 0x9F, CHR 0x93, CHR 0x8E] @ '' ''
                                            @ file_name f\<rparr>,
                                 \<lparr>role = ''assistant'', content = STILL_PROCESSING\<rparr>],
                              uploading := False, loading := False\<rparr>, False)"
    by (simp add: handleFileUpload_def Let_def add_message_def)
qed

theorem hub_timeout_outcome_witness:
  "selected_file (example_upload_env None)
     = Some \<lparr>file_name = ''a.pdf'', file_type = ''application/pdf''\<rparr>
   \<and> fetch_hub (example_upload_env None)
        (''Extract data from this S3 URI ('' @ tmpl (Some ''s3://docs/sourceDocs/a.pdf'') @ '')'')
        ''session-1'' = None
   \<and> handleFileUpload (example_upload_env None) ''session-1'' empty_page
       = Some (\<lparr>messages =
                  [\<lparr>role = ''user'',
                    content = [CHR 0xF0, CHR 0x9F, CHR 0x93, CHR 0x8E] @ '' a.pdf''\<rparr>,
                   \<lparr>role = ''error'',
                    content = ''Request timed out - document processing is taking too long''\<rparr>],
                uploading = False, loading = False\<rparr>, True)
   \<and> fetch_hub (example_upload_env (Some (3000, Inr gateway_timeout)))
        (''Extract data from this S3 URI ('' @ tmpl (Some ''s3://docs/sourceDocs/a.pdf'') @ '')'')
        ''session-1'' = Some (3000, Inr gateway_timeout)
   \<and> 3000 < TIMEOUT_MS \<and> \<not> hub_ok gateway_timeout \<and> hub_status gateway_timeout = 504
   \<and> handleFileUpload (example_upload_env (Some (3000, Inr gateway_timeout))) ''session-1''
        empty_page
       = Some (\<lparr>messages =
                  [\<lparr>role = ''user'',
                    content = [CHR 0xF0, CHR 0x9F, CHR 0x93, CHR 0x8E] @ '' a.pdf''\<rparr>,
                   \<lparr>role = ''assistant'', content = STILL_PROCESSING\<rparr>],
                uploading = False, loading = False\<rparr>, False)"
proof -
  have sel: "selected_file (example_upload_env h)
               = Some \<lparr>file_name = ''a.pdf'', file_type = ''application/pdf''\<rparr>" for h
    by (simp add: example_upload_env_def)
  have fu: "fetch_upload_url (example_upload_env h)
              (file_name \<lparr>file_name = ''a.pdf'', file_type = ''application/pdf''\<rparr>)
              (file_type \<lparr>file_name = ''a.pdf'', file_type = ''application/pdf''\<rparr>)
            = Some (Inr \<lparr>url_ok = True,
                         url_json = Inr \<lparr>got_uploadUrl = Some ''https://upload'',
                                         got_s3Path = Some ''s3://docs/sourceDocs/a.pdf''\<rparr>\<rparr>)" for h
    by (simp add: example_upload_env_def)
  have ok: "url_ok \<lparr>url_ok = True,
                    url_json = Inr \<lparr>got_uploadUrl = Some ''https://upload'',
                                    got_s3Path = Some ''s3://docs/sourceDocs/a.pdf''\<rparr>\<rparr>"
    by simp
  have js: "url_json \<lparr>url_ok = True,
                      url_json = Inr \<lparr>got_uploadUrl = Some ''https://upload'',
                                      got_s3Path = Some ''s3://docs/sourceDocs/a.pdf''\<rparr>\<rparr>
            = Inr \<lparr>got_uploadUrl = Some ''https://upload'',
                   got_s3Path = Some ''s3://docs/sourceDocs/a.pdf''\<rparr>"
    by simp
  have put: "fetch_s3_put (example_upload_env h)
               (got_uploadUrl \<lparr>got_uploadUrl = Some ''https://upload'',
                               got_s3Path = Some ''s3://docs/sourceDocs/a.pdf''\<rparr>)
               \<lparr>file_name = ''a.pdf'', file_type = ''application/pdf''\<rparr>
             = Some (Inr True)" for h
    by (simp add: example_upload_env_def)
  have hub: "fetch_hub (example_upload_env h) p s = h" for h p s
    by (simp add: example_upload_env_def)
  have gw: "3000 < TIMEOUT_MS" "\<not> hub_ok gateway_timeout" "hub_status gateway_timeout = 504"
    by (simp_all add: TIMEOUT_MS_def gateway_timeout_def)
  note never = hub_timeout_outcome
                 [where uenv = "example_upload_env None" and sid = "''session-1''"
                    and st = empty_page, OF sel fu ok js put]
  note late = hub_timeout_outcome
                [where uenv = "example_upload_env (Some (3000, Inr gateway_timeout))"
                   and sid = "''session-1''" and st = empty_page, OF sel fu ok js put]
  from never late sel hub gw show ?thesis
    by (simp add: empty_page_def)
qed

theorem hub_timeout_counterexample:
  "fetch_hub (example_upload_env None)
     (''Extract data from this S3 URI (s3://docs/sourceDocs/a.pdf)'') ''session-1'' = None
   \<and> handleFileUpload (example_upload_env None) ''session-1'' empty_page
       = Some (\<lparr>messages =
                  [\<lparr>role = ''user'',
                    content = [CHR 0xF0, CHR 0x9F, CHR 0x93, CHR 0x8E] @ '' a.pdf''\<rparr>,
                   \<lparr>role = ''error'',
                    content = ''Request timed out - document processing is taking too long''\<rparr>],
                uploading = False, loading = False\<rparr>, True)
   \<and> ''Request timed out - document processing is taking too long'' \<noteq> STILL_PROCESSING"
  by (simp add: handleFileUpload_def upload_steps_def call_hub_def inner_catch_def
        example_upload_env_def empty_page_def add_message_def new_Error_def TIMED_OUT_def
        STILL_PROCESSING_def Let_def)

end
